theory Spec2Isabelle
  imports Main
begin

section \<open>Strings and paths\<close>

text \<open>
  Python strings are modelled as \<^typ>\<open>string\<close>. The helpers below are the string methods and
  the \<^verbatim>\<open>os.path\<close> / \<^verbatim>\<open>pathlib\<close> functions of the standard library (POSIX flavour) that the
  two scripts call; each follows the library's own implementation line by line.
\<close>

text \<open>\<^verbatim>\<open>s.split(c)\<close>: always at least one piece.\<close>

fun split_on :: "char \<Rightarrow> string \<Rightarrow> string list" where
  "split_on c [] = [[]]"
| "split_on c (x # xs) =
     (if x = c then [] # split_on c xs
      else (case split_on c xs of [] \<Rightarrow> [[x]] | y # ys \<Rightarrow> (x # y) # ys))"

text \<open>\<^verbatim>\<open>sep.join(pieces)\<close>.\<close>

fun join_with :: "string \<Rightarrow> string list \<Rightarrow> string" where
  "join_with sep [] = []"
| "join_with sep [x] = x"
| "join_with sep (x # y # ys) = x @ sep @ join_with sep (y # ys)"

text \<open>\<^verbatim>\<open>s.startswith(p)\<close>, also used on lists of path components.\<close>

fun starts_with :: "'a list \<Rightarrow> 'a list \<Rightarrow> bool" where
  "starts_with [] ys = True"
| "starts_with (x # xs) [] = False"
| "starts_with (x # xs) (y # ys) = (x = y \<and> starts_with xs ys)"

definition rstrip :: "char \<Rightarrow> string \<Rightarrow> string" where
  "rstrip c s = rev (dropWhile (\<lambda>x. x = c) (rev s))"

definition lstrip :: "char \<Rightarrow> string \<Rightarrow> string" where
  "lstrip c s = dropWhile (\<lambda>x. x = c) s"

definition ends_with_char :: "char \<Rightarrow> string \<Rightarrow> bool" where
  "ends_with_char c s = (case rev s of [] \<Rightarrow> False | x # _ \<Rightarrow> x = c)"

text \<open>\<^verbatim>\<open>str(n)\<close> for a count, and for an exit status.\<close>

fun show_nat :: "nat \<Rightarrow> string" where
  "show_nat n =
     (if n < 10 then [char_of (48 + n)]
      else show_nat (n div 10) @ [char_of (48 + n mod 10)])"

declare show_nat.simps [simp del]

definition show_int :: "int \<Rightarrow> string" where
  "show_int i = (if i < 0 then ''-'' @ show_nat (nat (- i)) else show_nat (nat i))"

text \<open>
  \<^verbatim>\<open>str(xs)\<close> for a list of strings, as \<^verbatim>\<open>print(upload_cmd)\<close> shows it (for arguments without
  quotes or backslashes of their own).
\<close>

definition py_repr_list :: "string list \<Rightarrow> string" where
  "py_repr_list xs = ''['' @ join_with '', '' (map (\<lambda>x. [CHR 0x27] @ x @ [CHR 0x27]) xs) @ '']''"

subsection \<open>pathlib: name and suffixes\<close>

text \<open>
  \<^verbatim>\<open>PurePosixPath(p).name\<close>: the path is split at \<^verbatim>\<open>/\<close>, empty and \<^verbatim>\<open>.\<close> components are
  dropped, and the name is the last remaining component (empty when there is none).
\<close>

definition path_name :: "string \<Rightarrow> string" where
  "path_name p =
     (case rev (filter (\<lambda>c. c \<noteq> [] \<and> c \<noteq> ''.'') (split_on CHR ''/'' p)) of
        [] \<Rightarrow> []
      | n # _ \<Rightarrow> n)"

text \<open>
  \<^verbatim>\<open>PurePath.suffixes\<close>:
  \<^verbatim>\<open>if name.endswith('.'): return []\<close>;
  \<^verbatim>\<open>name = name.lstrip('.')\<close>;
  \<^verbatim>\<open>return ['.' + suffix for suffix in name.split('.')[1:]]\<close>.
\<close>

definition suffixes :: "string \<Rightarrow> string list" where
  "suffixes p =
     (let name = path_name p in
      if ends_with_char CHR ''.'' name then []
      else map (\<lambda>s. CHR ''.'' # s) (tl (split_on CHR ''.'' (lstrip CHR ''.'' name))))"

section \<open>main.py: classification of the listed files\<close>

definition PARQUET_SUFFIXES :: "string list" where
  "PARQUET_SUFFIXES = [''.parquet'']"

definition TAR_SUFFIXES :: "string list" where
  "TAR_SUFFIXES = [''.tar'', ''.tar.gz'', ''.tgz'', ''.tar.bz2'', ''.tar.xz'']"

text \<open>
  \<^verbatim>\<open>"".join(suffixes[-2:]) if len(suffixes) >= 2 else suffixes[-1]\<close>; only reached with a
  non-empty suffix list.
\<close>

definition merged_suffix :: "string list \<Rightarrow> string" where
  "merged_suffix sfx =
     (if 2 \<le> length sfx then concat (drop (length sfx - 2) sfx) else last sfx)"

text \<open>The three outcomes of one round of the loop of \<^verbatim>\<open>classify_files\<close>.\<close>

datatype file_class = Skipped | Parquet | Archive

definition classify :: "string \<Rightarrow> file_class" where
  "classify file_path =
     (let sfx = suffixes file_path in
      if sfx = [] then Skipped
      else if list_ex (\<lambda>s. s \<in> set PARQUET_SUFFIXES) sfx then Parquet
      else if merged_suffix sfx \<in> set TAR_SUFFIXES \<or> last sfx \<in> set TAR_SUFFIXES
      then Archive
      else Skipped)"

text \<open>The loop, with the two result lists as accumulators (\<^verbatim>\<open>append\<close> adds at the end).\<close>

fun classify_loop :: "string list \<Rightarrow> string list \<Rightarrow> string list \<Rightarrow> string list \<times> string list" where
  "classify_loop [] parquet_files tar_files = (parquet_files, tar_files)"
| "classify_loop (file_path # rest) parquet_files tar_files =
     (case classify file_path of
        Skipped \<Rightarrow> classify_loop rest parquet_files tar_files
      | Parquet \<Rightarrow> classify_loop rest (parquet_files @ [file_path]) tar_files
      | Archive \<Rightarrow> classify_loop rest parquet_files (tar_files @ [file_path]))"

definition classify_files :: "string list \<Rightarrow> string list \<times> string list" where
  "classify_files repo_files = classify_loop repo_files [] []"

section \<open>os.path\<close>

text \<open>
  \<^verbatim>\<open>posixpath.join(a, b)\<close>: an absolute \<^verbatim>\<open>b\<close> replaces \<^verbatim>\<open>a\<close>; otherwise the two are put
  together with one separator unless \<^verbatim>\<open>a\<close> is empty or already ends in one.
\<close>

definition os_path_join :: "string \<Rightarrow> string \<Rightarrow> string" where
  "os_path_join a b =
     (if starts_with ''/'' b then b
      else if a = [] then b
      else if ends_with_char CHR ''/'' a then a @ b
      else a @ ''/'' @ b)"

text \<open>
  \<^verbatim>\<open>posixpath.normpath\<close>. The loop over the components keeps \<^verbatim>\<open>new_comps\<close>:
  \<^verbatim>\<open>if comp in ('', '.'): continue\<close>;
  \<^verbatim>\<open>if comp != '..' or (not initial_slashes and not new_comps) or (new_comps and new_comps[-1] == '..'): new_comps.append(comp)\<close>;
  \<^verbatim>\<open>elif new_comps: new_comps.pop()\<close>.
\<close>

fun normpath_loop :: "bool \<Rightarrow> string list \<Rightarrow> string list \<Rightarrow> string list" where
  "normpath_loop rooted [] new_comps = new_comps"
| "normpath_loop rooted (c # cs) new_comps =
     (if c = [] \<or> c = ''.'' then normpath_loop rooted cs new_comps
      else if c = ''..'' then
        (if new_comps = [] then
           (if rooted then normpath_loop rooted cs new_comps
            else normpath_loop rooted cs (new_comps @ [c]))
         else if last new_comps = ''..'' then normpath_loop rooted cs (new_comps @ [c])
         else normpath_loop rooted cs (butlast new_comps))
      else normpath_loop rooted cs (new_comps @ [c]))"

text \<open>One or two leading slashes are kept as they are, three or more count as one.\<close>

definition initial_slashes :: "string \<Rightarrow> nat" where
  "initial_slashes path =
     (if starts_with ''/'' path then
        (if starts_with ''//'' path \<and> \<not> starts_with ''///'' path then 2 else 1)
      else 0)"

definition normpath :: "string \<Rightarrow> string" where
  "normpath path =
     (if path = [] then ''.''
      else
        (let n = initial_slashes path;
             comps = normpath_loop (0 < n) (split_on CHR ''/'' path) [];
             res = replicate n CHR ''/'' @ join_with ''/'' comps
         in if res = [] then ''.'' else res))"

text \<open>\<^verbatim>\<open>os.path.abspath\<close>, with the process's working directory as a parameter.\<close>

definition abspath :: "string \<Rightarrow> string \<Rightarrow> string" where
  "abspath cwd path = normpath (if starts_with ''/'' path then path else os_path_join cwd path)"

text \<open>
  \<^verbatim>\<open>os.path.commonprefix\<close> of two sequences: the longest common prefix, element by element
  (characters for strings, components for the lists \<^verbatim>\<open>relpath\<close> passes).
\<close>

fun commonprefix :: "'a list \<Rightarrow> 'a list \<Rightarrow> 'a list" where
  "commonprefix (x # xs) (y # ys) = (if x = y then x # commonprefix xs ys else [])"
| "commonprefix xs ys = []"

text \<open>\<^verbatim>\<open>os.path.dirname\<close> and \<^verbatim>\<open>os.path.basename\<close>: split at the last slash.\<close>

definition dirname :: "string \<Rightarrow> string" where
  "dirname p =
     (let head = rev (dropWhile (\<lambda>c. c \<noteq> CHR ''/'') (rev p))
      in if head = [] then head
         else if list_all (\<lambda>c. c = CHR ''/'') head then head
         else rstrip CHR ''/'' head)"

definition basename :: "string \<Rightarrow> string" where
  "basename p = rev (takeWhile (\<lambda>c. c \<noteq> CHR ''/'') (rev p))"

text \<open>
  Python exceptions, by class, with the message or the fields the scripts read.
  \<^verbatim>\<open>exn_str\<close> is \<^verbatim>\<open>str(e)\<close>, which the log messages embed (for a \<^verbatim>\<open>CalledProcessError\<close>,
  the text Python gives a positive exit status).
\<close>

datatype exn =
    Exception string
  | RuntimeError string
  | EnvironmentError string
  | OSError string
  | ReadError string
  | ValueError string
  | CalledProcessError int "string list"

fun exn_str :: "exn \<Rightarrow> string" where
  "exn_str (Exception m) = m"
| "exn_str (RuntimeError m) = m"
| "exn_str (EnvironmentError m) = m"
| "exn_str (OSError m) = m"
| "exn_str (ReadError m) = m"
| "exn_str (ValueError m) = m"
| "exn_str (CalledProcessError rc cmd) =
     ''Command '' @ [CHR 0x27] @ py_repr_list cmd @ [CHR 0x27]
       @ '' returned non-zero exit status '' @ show_int rc @ ''.''"

text \<open>
  \<^verbatim>\<open>os.path.relpath(path, start)\<close>: raises \<^verbatim>\<open>ValueError\<close> on an empty path, otherwise climbs
  from \<^verbatim>\<open>start\<close> to the common ancestor and descends to \<^verbatim>\<open>path\<close>.
\<close>

definition path_components :: "string \<Rightarrow> string list" where
  "path_components p = filter (\<lambda>x. x \<noteq> []) (split_on CHR ''/'' p)"

definition relpath :: "string \<Rightarrow> string \<Rightarrow> string \<Rightarrow> exn + string" where
  "relpath cwd path start =
     (if path = [] then Inl (ValueError ''no path specified'')
      else
        (let start_list = path_components (abspath cwd start);
             path_list = path_components (abspath cwd path);
             i = length (commonprefix start_list path_list);
             rel_list = replicate (length start_list - i) ''..'' @ drop i path_list
         in case rel_list of
              [] \<Rightarrow> Inr ''.''
            | r # rs \<Rightarrow> Inr (foldl os_path_join r rs)))"

section \<open>The world the scripts act on\<close>

text \<open>
  The disk is a list of entries under absolute, normalised paths; directories that are only
  implied by a longer path exist too. A tar archive carries its member names in archive order.
  Symbolic links and permissions are not part of the disk; what they can cause (a directory
  that cannot be created or removed, a command that cannot be started) enters through the
  environment below.
\<close>

datatype node = Dir | File | TarFile "string list"

type_synonym disk = "(string \<times> node) list"

text \<open>
  \<^verbatim>\<open>subprocess.run\<close> either raises before the command runs, or returns the exit status, the
  captured output and error streams, and leaves the disk as the command made it.
\<close>

datatype proc = Exited int string string disk | NotLaunched exn

datatype level = WARNING | ERROR | INFO

text \<open>What a run does, in order: the observable effects of the library calls.\<close>

datatype event =
    Ran "string list" "string option"
  | Made string
  | Opened string
  | Extracted string string
  | Removed string
  | Unlinked string
  | Logged level string
  | Printed string

record world =
  on_disk :: disk
  history :: "event list"

text \<open>
  Everything the scripts read from outside: the working and home directories, the external
  commands (any behaviour), whether creating or removing a directory fails, what
  \<^verbatim>\<open>shutil.which\<close>, \<^verbatim>\<open>glob.glob\<close>, \<^verbatim>\<open>uuid.uuid4\<close> and \<^verbatim>\<open>snapshot_download\<close> answer.
\<close>

record env =
  getcwd :: string
  home :: string
  subprocess_run :: "string list \<Rightarrow> string option \<Rightarrow> disk \<Rightarrow> proc"
  makedirs_error :: "string \<Rightarrow> disk \<Rightarrow> exn option"
  rmtree_error :: "string \<Rightarrow> disk \<Rightarrow> exn option"
  which_gcloud :: "string option"
  glob_glob :: "string \<Rightarrow> disk \<Rightarrow> string list"
  uuid4 :: "nat \<Rightarrow> string"
  tqdm_installed :: bool
  snapshot_download :: "string \<Rightarrow> string \<Rightarrow> string list \<Rightarrow> disk \<Rightarrow> (exn + string) \<times> disk"

definition fs_key :: "env \<Rightarrow> string \<Rightarrow> string" where
  "fs_key env p = abspath (getcwd env) p"

definition is_under :: "string \<Rightarrow> string \<Rightarrow> bool" where
  "is_under d q = (q = d \<or> starts_with (d @ ''/'') q)"

definition os_path_exists :: "env \<Rightarrow> disk \<Rightarrow> string \<Rightarrow> bool" where
  "os_path_exists env d p = list_ex (\<lambda>e. is_under (fs_key env p) (fst e)) d"

definition emit :: "event list \<Rightarrow> world \<Rightarrow> world" where
  "emit es w = w\<lparr>history := history w @ es\<rparr>"

text \<open>\<^verbatim>\<open>os.makedirs\<close>: fails when the environment says so, otherwise the directory exists afterwards.\<close>

definition os_makedirs :: "env \<Rightarrow> string \<Rightarrow> world \<Rightarrow> (exn + unit) \<times> world" where
  "os_makedirs env p w =
     (case makedirs_error env p (on_disk w) of
        Some e \<Rightarrow> (Inl e, w)
      | None \<Rightarrow>
          (if os_path_exists env (on_disk w) p then (Inr (), w)
           else (Inr (), emit [Made (fs_key env p)]
                   (w\<lparr>on_disk := on_disk w @ [(fs_key env p, Dir)]\<rparr>))))"

text \<open>
  \<^verbatim>\<open>shutil.rmtree\<close>: fails when the environment says so (the tree is then taken as left in
  place), otherwise the directory and everything below it are gone.
\<close>

definition shutil_rmtree :: "env \<Rightarrow> string \<Rightarrow> world \<Rightarrow> (exn + unit) \<times> world" where
  "shutil_rmtree env p w =
     (case rmtree_error env p (on_disk w) of
        Some e \<Rightarrow> (Inl e, w)
      | None \<Rightarrow>
          (Inr (), emit [Removed (fs_key env p)]
             (w\<lparr>on_disk := filter (\<lambda>e. \<not> is_under (fs_key env p) (fst e)) (on_disk w)\<rparr>)))"

text \<open>
  \<^verbatim>\<open>tarfile.open\<close> for reading: the member list of an archive, an error for anything else.
  Every call is recorded, whether it succeeds or not.
\<close>

definition tarfile_open :: "env \<Rightarrow> string \<Rightarrow> world \<Rightarrow> (exn + string list) \<times> world" where
  "tarfile_open env p w0 =
     (let w = emit [Opened (fs_key env p)] w0
      in case map_of (on_disk w) (fs_key env p) of
        None \<Rightarrow> (Inl (OSError ''No such file or directory''), w)
      | Some Dir \<Rightarrow> (Inl (OSError ''Is a directory''), w)
      | Some File \<Rightarrow> (Inl (ReadError ''file could not be opened successfully''), w)
      | Some (TarFile members) \<Rightarrow> (Inr members, w))"

text \<open>
  Extraction of one member by \<^verbatim>\<open>tarfile\<close>, called as the scripts call it, without an extraction
  filter: the file is written at \<^verbatim>\<open>os.path.join(path, name)\<close>, wherever that lands.
\<close>

definition extract_member :: "env \<Rightarrow> string \<Rightarrow> string \<Rightarrow> world \<Rightarrow> world" where
  "extract_member env path name w =
     (let target = fs_key env (os_path_join path name)
      in emit [Extracted name target]
           (w\<lparr>on_disk := filter (\<lambda>e. fst e \<noteq> target) (on_disk w) @ [(target, File)]\<rparr>))"

section \<open>gcs_uploader.py\<close>

subsection \<open>Configuration\<close>

text \<open>\<^verbatim>\<open>os.path.expanduser("~/upgraded-barnacle/")\<close>: the home directory replaces the tilde.\<close>

definition SOURCE_ROOT :: "env \<Rightarrow> string" where
  "SOURCE_ROOT env = rstrip CHR ''/'' (home env) @ ''/upgraded-barnacle/''"

definition SEARCH_PATTERN :: "env \<Rightarrow> string" where
  "SEARCH_PATTERN env =
     foldl os_path_join (SOURCE_ROOT env)
       [''Emilia-Dataset'', ''Emilia-Dataset'', ''Emilia-*'', ''*'', ''*.tar'']"

definition BUCKET_NAME :: string where
  "BUCKET_NAME = ''vaani-tts-master''"

definition MAX_WORKERS :: nat where
  "MAX_WORKERS = 4"

definition TEMP_BASE_DIR :: "env \<Rightarrow> string" where
  "TEMP_BASE_DIR env = os_path_join (getcwd env) ''temp_extraction_work''"

definition DRY_RUN :: bool where
  "DRY_RUN = True"

subsection \<open>extract_with_system_tar\<close>

text \<open>The characters \<^verbatim>\<open>str.strip()\<close> removes, among the code points below 256.\<close>

definition is_space :: "char \<Rightarrow> bool" where
  "is_space c =
     (c \<in> set [CHR '' '', CHR 0x09, CHR 0x0A, CHR 0x0B, CHR 0x0C, CHR 0x0D,
               CHR 0x1C, CHR 0x1D, CHR 0x1E, CHR 0x1F, CHR 0x85, CHR 0xA0])"

definition str_strip :: "string \<Rightarrow> string" where
  "str_strip s = rev (dropWhile is_space (rev (dropWhile is_space s)))"

text \<open>
  The command is run once; a non-zero exit status and an exception both give \<^verbatim>\<open>False\<close>,
  after a warning.
\<close>

definition extract_with_system_tar :: "env \<Rightarrow> string \<Rightarrow> string \<Rightarrow> world \<Rightarrow> bool \<times> world" where
  "extract_with_system_tar env tar_path dest_dir w =
     (let cmd = [''tar'', ''-xf'', tar_path, ''-C'', dest_dir]
      in case subprocess_run env cmd None (on_disk w) of
           NotLaunched e \<Rightarrow>
             (False, emit [Ran cmd None,
                Logged WARNING (''System tar error: '' @ exn_str e
                  @ ''. Falling back to Python tarfile.'')] w)
         | Exited returncode out err d \<Rightarrow>
             (if returncode \<noteq> 0 then
                (False, emit [Ran cmd None,
                   Logged WARNING (''System tar failed for '' @ tar_path @ '': '' @ str_strip err
                     @ ''. Falling back to Python tarfile.'')] (w\<lparr>on_disk := d\<rparr>))
              else (True, emit [Ran cmd None] (w\<lparr>on_disk := d\<rparr>))))"

subsection \<open>ensure_gcloud_installed\<close>

definition ensure_gcloud_installed :: "env \<Rightarrow> exn + unit" where
  "ensure_gcloud_installed env =
     (case which_gcloud env of
        None \<Rightarrow> Inl (EnvironmentError ''gcloud CLI is not found. Please install Google Cloud SDK.'')
      | Some _ \<Rightarrow> Inr ())"

subsection \<open>process_tar_file\<close>

definition is_within_directory :: "env \<Rightarrow> string \<Rightarrow> string \<Rightarrow> bool" where
  "is_within_directory env directory target =
     (let abs_directory = abspath (getcwd env) directory;
          abs_target = abspath (getcwd env) target;
          prefix = commonprefix abs_directory abs_target
      in prefix = abs_directory)"

text \<open>
  \<^verbatim>\<open>tar.extractall(path=temp_dir, members=safe_members(tar))\<close>. \<^verbatim>\<open>safe_members\<close> is a generator
  and \<^verbatim>\<open>extractall\<close> extracts each member as the generator yields it, so the check of a member
  runs after the members before it have been written.
\<close>

fun extractall_safe_members ::
  "env \<Rightarrow> string \<Rightarrow> string list \<Rightarrow> world \<Rightarrow> (exn + unit) \<times> world" where
  "extractall_safe_members env temp_dir [] w = (Inr (), w)"
| "extractall_safe_members env temp_dir (m # ms) w =
     (let member_path = os_path_join temp_dir m
      in if is_within_directory env temp_dir member_path
         then extractall_safe_members env temp_dir ms (extract_member env temp_dir m w)
         else (Inl (Exception ''Attempted Path Traversal in Tar File''), w))"

text \<open>The body of the inner \<^verbatim>\<open>try\<close>: open the archive in process, extract through the filter.\<close>

definition tarfile_fallback :: "env \<Rightarrow> string \<Rightarrow> string \<Rightarrow> world \<Rightarrow> (exn + unit) \<times> world" where
  "tarfile_fallback env tar_path temp_dir w =
     (case tarfile_open env tar_path w of
        (Inl e, w1) \<Rightarrow> (Inl e, w1)
      | (Inr members, w1) \<Rightarrow> extractall_safe_members env temp_dir members w1)"

text \<open>
  Step 3: the system tar first; if it did not succeed, the fallback, whose exception is logged
  and ends the job with \<^verbatim>\<open>False\<close>. The result says whether the job goes on to the upload.
\<close>

definition extract_step ::
  "env \<Rightarrow> string \<Rightarrow> string \<Rightarrow> string \<Rightarrow> world \<Rightarrow> bool \<times> world" where
  "extract_step env unique_id tar_path temp_dir w =
     (case extract_with_system_tar env tar_path temp_dir w of
        (True, w1) \<Rightarrow> (True, w1)
      | (False, w1) \<Rightarrow>
          (case tarfile_fallback env tar_path temp_dir w1 of
             (Inr u, w2) \<Rightarrow> (True, w2)
           | (Inl e, w2) \<Rightarrow>
               (False, emit [Logged ERROR (''['' @ unique_id @ ''] Failed to extract '' @ tar_path
                  @ '': '' @ exn_str e)] w2)))"

text \<open>
  Step 4: the copy command is run inside the workspace, on \<^verbatim>\<open>.\<close>. The check of its exit
  status is commented out in the source: once the command has run, the job logs success and
  returns \<^verbatim>\<open>True\<close>. Only an exception of \<^verbatim>\<open>subprocess.run\<close> itself leaves the step.
\<close>

definition upload_step ::
  "env \<Rightarrow> string \<Rightarrow> string \<Rightarrow> string \<Rightarrow> string \<Rightarrow> world \<Rightarrow> (exn + bool) \<times> world" where
  "upload_step env unique_id tar_path temp_dir gcs_dest w =
     (let upload_cmd = [''gcloud'', ''storage'', ''cp'', ''-r'', ''.'', gcs_dest];
          w1 = emit [Printed (py_repr_list upload_cmd)] w
      in case subprocess_run env upload_cmd (Some temp_dir) (on_disk w1) of
           NotLaunched e \<Rightarrow> (Inl e, emit [Ran upload_cmd (Some temp_dir)] w1)
         | Exited returncode out err d \<Rightarrow>
             (Inr True,
              emit [Ran upload_cmd (Some temp_dir),
                    Logged INFO (''['' @ unique_id @ ''] Successfully processed '' @ basename tar_path)]
                (w1\<lparr>on_disk := d\<rparr>)))"

text \<open>
  The body of the outer \<^verbatim>\<open>try\<close>, steps 1 to 4. \<^verbatim>\<open>Inl\<close> is an exception on its way to the
  \<^verbatim>\<open>except\<close> clause, \<^verbatim>\<open>Inr\<close> a \<^verbatim>\<open>return\<close>. (\<^verbatim>\<open>logging.debug\<close> prints nothing at level INFO.)
\<close>

definition try_body ::
  "env \<Rightarrow> string \<Rightarrow> string \<Rightarrow> string \<Rightarrow> world \<Rightarrow> (exn + bool) \<times> world" where
  "try_body env unique_id tar_path temp_dir w =
     (case relpath (getcwd env) tar_path (SOURCE_ROOT env) of
        Inl e \<Rightarrow> (Inl e, w)
      | Inr rel_path \<Rightarrow>
          (let dest_rel_folder = dirname rel_path;
               gcs_dest = ''gs://'' @ BUCKET_NAME @ ''/'' @ dest_rel_folder @ ''/''
           in case os_makedirs env temp_dir w of
                (Inl e, w1) \<Rightarrow> (Inl e, w1)
              | (Inr u, w1) \<Rightarrow>
                  (case extract_step env unique_id tar_path temp_dir w1 of
                     (False, w2) \<Rightarrow> (Inr False, w2)
                   | (True, w2) \<Rightarrow> upload_step env unique_id tar_path temp_dir gcs_dest w2)))"

text \<open>\<^verbatim>\<open>except Exception as e\<close>: log and return \<^verbatim>\<open>False\<close>.\<close>

definition except_clause :: "string \<Rightarrow> (exn + bool) \<times> world \<Rightarrow> bool \<times> world" where
  "except_clause tar_path r =
     (case r of
        (Inl e, w) \<Rightarrow>
          (False, emit [Logged ERROR (''Global error processing '' @ tar_path @ '': '' @ exn_str e)] w)
      | (Inr b, w) \<Rightarrow> (b, w))"

text \<open>
  \<^verbatim>\<open>finally\<close>: remove the workspace if it exists. An exception raised here is not inside any
  \<^verbatim>\<open>try\<close>: it replaces the pending return value and leaves the function.
\<close>

definition finally_clause :: "env \<Rightarrow> string \<Rightarrow> bool \<times> world \<Rightarrow> (exn + bool) \<times> world" where
  "finally_clause env temp_dir r =
     (case r of
        (b, w) \<Rightarrow>
          (if os_path_exists env (on_disk w) temp_dir then
             (case shutil_rmtree env temp_dir w of
                (Inl e, w1) \<Rightarrow> (Inl e, w1)
              | (Inr u, w1) \<Rightarrow> (Inr b, w1))
           else (Inr b, w)))"

text \<open>The workspace of a job: \<^verbatim>\<open>os.path.join(TEMP_BASE_DIR, str(uuid.uuid4())[:8])\<close>.\<close>

definition workspace :: "env \<Rightarrow> string \<Rightarrow> string" where
  "workspace env uuid = os_path_join (TEMP_BASE_DIR env) (take 8 uuid)"

text \<open>
  One job. \<^verbatim>\<open>uuid\<close> is what \<^verbatim>\<open>uuid.uuid4()\<close> gives this call. The result is \<^verbatim>\<open>Inr\<close> of the
  returned boolean, or \<^verbatim>\<open>Inl\<close> of an exception that leaves the function.
\<close>

definition process_tar_file :: "env \<Rightarrow> string \<Rightarrow> string \<Rightarrow> world \<Rightarrow> (exn + bool) \<times> world" where
  "process_tar_file env uuid tar_path w =
     (let unique_id = take 8 uuid;
          temp_dir = os_path_join (TEMP_BASE_DIR env) unique_id
      in finally_clause env temp_dir
           (except_clause tar_path (try_body env unique_id tar_path temp_dir w)))"

subsection \<open>main\<close>

text \<open>
  The worker pool, one job after the other in the order of submission: every submitted job
  runs, and its future holds what the call returned or raised. \<^verbatim>\<open>i\<close> counts the calls of
  \<^verbatim>\<open>uuid.uuid4\<close>. The interleaving of jobs on the pool's threads is not part of this model.
\<close>

fun run_pool :: "env \<Rightarrow> nat \<Rightarrow> string list \<Rightarrow> world \<Rightarrow> (exn + bool) list \<times> world" where
  "run_pool env i [] w = ([], w)"
| "run_pool env i (f # fs) w =
     (case process_tar_file env (uuid4 env i) f w of
        (r, w1) \<Rightarrow> (case run_pool env (Suc i) fs w1 of (rs, w2) \<Rightarrow> (r # rs, w2)))"

text \<open>
  The loop over the completed futures: \<^verbatim>\<open>future.result()\<close> returns the job's boolean or
  re-raises the job's exception, which nothing in \<^verbatim>\<open>main\<close> catches.
\<close>

fun count_results :: "(exn + bool) list \<Rightarrow> nat \<Rightarrow> nat \<Rightarrow> exn + nat \<times> nat" where
  "count_results [] successful failed = Inr (successful, failed)"
| "count_results (Inl e # rs) successful failed = Inl e"
| "count_results (Inr b # rs) successful failed =
     (if b then count_results rs (successful + 1) failed
      else count_results rs successful (failed + 1))"

text \<open>
  How \<^verbatim>\<open>main\<close> ends: with an exception, with the early \<^verbatim>\<open>return\<close> after the "No files found"
  message, or with the summary of the two counters.
\<close>

datatype run_end = Crashed exn | ReturnedNoFiles | ReturnedSummary nat nat

text \<open>From the banner of the dry run to the summary.\<close>

definition process_files :: "env \<Rightarrow> string list \<Rightarrow> world \<Rightarrow> run_end \<times> world" where
  "process_files env found w =
     (let w1 = (if DRY_RUN then
                  emit [Printed (CHR 0x0A # ''--- DRY RUN MODE ACTIVATED ---''),
                        Printed ''Only processing the first found archive to verify configuration.''] w
                else w);
          files = (if DRY_RUN then take 2 found else found);
          w2 = (if tqdm_installed env then w1
                else emit [Printed ''Install 'tqdm' (pip install tqdm) for a progress bar. Continuing without it...''] w1);
          w3 = emit [Printed (''Starting processing with '' @ show_nat MAX_WORKERS @ '' threads...''),
                     Printed ''Logs are being written to migration.log''] w2
      in case run_pool env 0 files w3 of
           (results, w4) \<Rightarrow>
             (case count_results results 0 0 of
                Inl e \<Rightarrow> (Crashed e, w4)
              | Inr (successful, failed) \<Rightarrow>
                  (case (if os_path_exists env (on_disk w4) (TEMP_BASE_DIR env)
                         then shutil_rmtree env (TEMP_BASE_DIR env) w4 else (Inr (), w4)) of
                     (Inl e, w5) \<Rightarrow> (Crashed e, w5)
                   | (Inr u, w5) \<Rightarrow>
                       (ReturnedSummary successful failed,
                        emit [Printed (CHR 0x0A # ''--- Migration Complete ---''),
                              Printed (''Successful: '' @ show_nat successful),
                              Printed (''Failed:     '' @ show_nat failed),
                              Printed ''Check migration.log for details on failures.''] w5))))"

definition main :: "env \<Rightarrow> world \<Rightarrow> run_end \<times> world" where
  "main env w =
     (case ensure_gcloud_installed env of
        Inl e \<Rightarrow> (Crashed e, w)
      | Inr u \<Rightarrow>
          (case (if os_path_exists env (on_disk w) (TEMP_BASE_DIR env) then (Inr (), w)
                 else os_makedirs env (TEMP_BASE_DIR env) w) of
             (Inl e, w1) \<Rightarrow> (Crashed e, w1)
           | (Inr u, w1) \<Rightarrow>
               (let w2 = emit [Printed (''Scanning for files matching: '' @ SEARCH_PATTERN env)] w1;
                    files = glob_glob env (SEARCH_PATTERN env) (on_disk w2);
                    total_files = length files;
                    w3 = emit [Printed (''Found '' @ show_nat total_files @ '' tar files.'')] w2
                in if total_files = 0 then
                     (ReturnedNoFiles,
                      emit [Printed ''No files found. Check your SOURCE_ROOT and directory structure.''] w3)
                   else process_files env files w3)))"

section \<open>main.py: extraction, download and upload\<close>

text \<open>
  \<^verbatim>\<open>Path.resolve()\<close> on a disk without symbolic links: the absolute path with \<^verbatim>\<open>.\<close> and
  \<^verbatim>\<open>..\<close> resolved, as its components. \<^verbatim>\<open>relative_to\<close> compares component by component.
\<close>

definition path_resolve :: "env \<Rightarrow> string \<Rightarrow> string list" where
  "path_resolve env p = path_components (abspath (getcwd env) p)"

definition ensure_path_is_within :: "env \<Rightarrow> string \<Rightarrow> string \<Rightarrow> exn + unit" where
  "ensure_path_is_within env base_dir target_path =
     (if starts_with (path_resolve env base_dir) (path_resolve env target_path) then Inr ()
      else Inl (RuntimeError (''Archive member would extract outside of '' @ base_dir @ '': ''
                  @ target_path)))"

text \<open>The loop over all members that comes before \<^verbatim>\<open>extractall\<close>.\<close>

fun check_members :: "env \<Rightarrow> string \<Rightarrow> string list \<Rightarrow> exn + unit" where
  "check_members env destination [] = Inr ()"
| "check_members env destination (m # ms) =
     (case ensure_path_is_within env destination (os_path_join destination m) of
        Inl e \<Rightarrow> Inl e
      | Inr u \<Rightarrow> check_members env destination ms)"

text \<open>\<^verbatim>\<open>tar.extractall(path=destination, members=members)\<close> on the list already checked.\<close>

fun extractall :: "env \<Rightarrow> string \<Rightarrow> string list \<Rightarrow> world \<Rightarrow> world" where
  "extractall env destination [] w = w"
| "extractall env destination (m # ms) w =
     extractall env destination ms (extract_member env destination m w)"

definition path_unlink :: "env \<Rightarrow> string \<Rightarrow> world \<Rightarrow> world" where
  "path_unlink env p w =
     emit [Unlinked (fs_key env p)]
       (w\<lparr>on_disk := filter (\<lambda>e. fst e \<noteq> fs_key env p) (on_disk w)\<rparr>)"

definition extract_tar_archive ::
  "env \<Rightarrow> string \<Rightarrow> bool \<Rightarrow> string \<Rightarrow> world \<Rightarrow> (exn + unit) \<times> world" where
  "extract_tar_archive env archive_path keep_archive extraction_path w =
     (if \<not> os_path_exists env (on_disk w) archive_path then
        (Inr (), emit [Printed (''Warning: expected archive not found locally: '' @ archive_path)] w)
      else
        (let destination = extraction_path
         in case tarfile_open env archive_path w of
              (Inl e, w1) \<Rightarrow> (Inl e, w1)
            | (Inr members, w1) \<Rightarrow>
                (case check_members env destination members of
                   Inl e \<Rightarrow> (Inl e, w1)
                 | Inr u \<Rightarrow>
                     (let w2 = extractall env destination members w1
                      in if keep_archive then (Inr (), w2)
                         else (Inr (), path_unlink env archive_path w2)))))"


text \<open>
  \<^verbatim>\<open>subprocess.run(command, check=True)\<close>: a non-zero exit status raises
  \<^verbatim>\<open>CalledProcessError\<close> with the status and the command; the streams are not captured.
\<close>

definition run_gcloud_storage_upload ::
  "env \<Rightarrow> string \<Rightarrow> string option \<Rightarrow> world \<Rightarrow> (exn + unit) \<times> world" where
  "run_gcloud_storage_upload env local_dir gcs_destination w =
     (case gcs_destination of
        None \<Rightarrow> (Inr (), w)
      | Some dest \<Rightarrow>
          (if dest = [] then (Inr (), w)
           else
             (let command = [''gcloud'', ''storage'', ''cp'', ''-r'', local_dir, dest];
                  w1 = emit [Printed (''Running: '' @ join_with '' '' command)] w
              in case subprocess_run env command None (on_disk w1) of
                   NotLaunched e \<Rightarrow> (Inl e, emit [Ran command None] w1)
                 | Exited returncode out err d \<Rightarrow>
                     (if returncode \<noteq> 0 then
                        (Inl (CalledProcessError returncode command),
                         emit [Ran command None] (w1\<lparr>on_disk := d\<rparr>))
                      else (Inr (), emit [Ran command None] (w1\<lparr>on_disk := d\<rparr>))))))"

section \<open>Reading the results\<close>

text \<open>
  The two partitions of \<^verbatim>\<open>classify_files\<close>, said on the suffix list of the file name: a path
  is tabular when \<^verbatim>\<open>.parquet\<close> is any of its suffixes; it is an archive when it is not
  tabular and its last two suffixes joined, or its last suffix, is a tar suffix.
\<close>

definition is_tabular :: "string \<Rightarrow> bool" where
  "is_tabular p = (''.parquet'' \<in> set (suffixes p))"

definition is_archive :: "string \<Rightarrow> bool" where
  "is_archive p =
     (''.parquet'' \<notin> set (suffixes p) \<and> suffixes p \<noteq> [] \<and>
      (merged_suffix (suffixes p) \<in> set TAR_SUFFIXES \<or> last (suffixes p) \<in> set TAR_SUFFIXES))"

text \<open>
  The attempts to extract an archive that a history holds: a run of \<^verbatim>\<open>tar -xf archive -C dest\<close>,
  or an archive opened in process.
\<close>

datatype attempt = SystemTar string string | InProcess string

definition tar_attempt :: "string list \<Rightarrow> attempt list" where
  "tar_attempt argv =
     (case argv of
        [a, b, p, c, d] \<Rightarrow> (if a = ''tar'' \<and> b = ''-xf'' \<and> c = ''-C'' then [SystemTar p d] else [])
      | _ \<Rightarrow> [])"

fun attempts_of :: "event \<Rightarrow> attempt list" where
  "attempts_of (Ran argv cwd) = tar_attempt argv"
| "attempts_of (Opened p) = [InProcess p]"
| "attempts_of e = []"

definition extraction_attempts :: "event list \<Rightarrow> attempt list" where
  "extraction_attempts es = concat (map attempts_of es)"

text \<open>
  The copy commands that a history holds, \<^verbatim>\<open>gcloud storage cp -r SOURCE DESTINATION\<close>, each
  with the directory it ran in (\<^verbatim>\<open>None\<close>: the directory of the script).
\<close>

record copy_command =
  source_operand :: string
  destination_uri :: string
  working_dir :: "string option"

definition copy_of :: "string list \<Rightarrow> string option \<Rightarrow> copy_command list" where
  "copy_of argv cwd =
     (case argv of
        [a, b, c, d, src, dst] \<Rightarrow>
          (if a = ''gcloud'' \<and> b = ''storage'' \<and> c = ''cp'' \<and> d = ''-r''
           then [\<lparr>source_operand = src, destination_uri = dst, working_dir = cwd\<rparr>] else [])
      | _ \<Rightarrow> [])"

fun copies_of :: "event \<Rightarrow> copy_command list" where
  "copies_of (Ran argv cwd) = copy_of argv cwd"
| "copies_of e = []"

definition copy_commands :: "event list \<Rightarrow> copy_command list" where
  "copy_commands es = concat (map copies_of es)"

text \<open>The paths written by in-process extraction, the errors logged, the directories created.\<close>

fun written_of :: "event \<Rightarrow> string list" where
  "written_of (Extracted name target) = [target]"
| "written_of e = []"

definition written_files :: "event list \<Rightarrow> string list" where
  "written_files es = concat (map written_of es)"

fun error_of :: "event \<Rightarrow> string list" where
  "error_of (Logged ERROR msg) = [msg]"
| "error_of e = []"

definition errors_logged :: "event list \<Rightarrow> string list" where
  "errors_logged es = concat (map error_of es)"

fun made_of :: "event \<Rightarrow> string list" where
  "made_of (Made p) = [p]"
| "made_of e = []"

definition dirs_made :: "event list \<Rightarrow> string list" where
  "dirs_made es = concat (map made_of es)"

text \<open>The test \<^verbatim>\<open>safe_members\<close> makes on one member, and the test of main.py on one member.\<close>

definition member_ok :: "env \<Rightarrow> string \<Rightarrow> string \<Rightarrow> bool" where
  "member_ok env temp_dir m = is_within_directory env temp_dir (os_path_join temp_dir m)"

definition lands_within :: "env \<Rightarrow> string \<Rightarrow> string \<Rightarrow> bool" where
  "lands_within env base_dir m =
     starts_with (path_resolve env base_dir) (path_resolve env (os_path_join base_dir m))"


text \<open>The destination of a job, from the archive's path relative to the source root.\<close>

definition gcs_dest_of :: "string \<Rightarrow> string" where
  "gcs_dest_of rel_path = ''gs://'' @ BUCKET_NAME @ ''/'' @ dirname rel_path @ ''/''"





section \<open>Example environments\<close>

text \<open>
  A host where every command exits with status 0 and leaves the disk alone, no directory
  operation fails and nothing matches the search pattern.
\<close>

definition quiet_env :: env where
  "quiet_env =
     \<lparr>getcwd = ''/w'', home = ''/home/u'',
      subprocess_run = (\<lambda>cmd cwd d. Exited 0 [] [] d),
      makedirs_error = (\<lambda>p d. None),
      rmtree_error = (\<lambda>p d. None),
      which_gcloud = Some ''/usr/bin/gcloud'',
      glob_glob = (\<lambda>pattern d. []),
      uuid4 = (\<lambda>i. ''1a2b3c4d-5e6f''),
      tqdm_installed = False,
      snapshot_download = (\<lambda>dataset_id local_dir patterns d. (Inr local_dir, d))\<rparr>"

text \<open>The same host without a \<^verbatim>\<open>tar\<close> binary: starting it raises.\<close>

definition no_tar_env :: env where
  "no_tar_env =
     quiet_env\<lparr>subprocess_run :=
       (\<lambda>cmd cwd d. if take 1 cmd = [''tar''] then NotLaunched (OSError ''tar: command not found'')
                     else Exited 0 [] [] d)\<rparr>"

text \<open>A host where the copy command exits with status 1 and a message on its error stream.\<close>

definition failing_copy_env :: env where
  "failing_copy_env =
     quiet_env\<lparr>subprocess_run :=
       (\<lambda>cmd cwd d. if take 1 cmd = [''gcloud'']
                     then Exited 1 [] ''ERROR: (gcloud.storage.cp) bucket not found'' d
                     else Exited 0 [] [] d)\<rparr>"

text \<open>
  A host where one archive matches the pattern and a directory tree cannot be removed (as
  when an extracted directory is not writable).
\<close>

definition locked_tree_env :: env where
  "locked_tree_env =
     quiet_env\<lparr>rmtree_error := (\<lambda>p d. Some (OSError ''[Errno 13] Permission denied'')),
               glob_glob :=
                 (\<lambda>pattern d. [''/home/u/upgraded-barnacle/data/shard-000/part.tar''])\<rparr>"

text \<open>One archive below the source root, with the given members, and nothing else on disk.\<close>

definition shard :: string where
  "shard = ''/home/u/upgraded-barnacle/data/shard-000/part.tar''"

definition shard_world :: "string list \<Rightarrow> world" where
  "shard_world members = \<lparr>on_disk = [(shard, TarFile members)], history = []\<rparr>"

section \<open>Properties\<close>

subsection \<open>Basic facts\<close>

lemma on_disk_emit [simp]: "on_disk (emit es w) = on_disk w"
  by (simp add: emit_def)

lemma history_emit [simp]: "history (emit es w) = history w @ es"
  by (simp add: emit_def)


lemma extraction_attempts_simps [simp]:
  "extraction_attempts (xs @ ys) = extraction_attempts xs @ extraction_attempts ys"
  "extraction_attempts (e # es) = attempts_of e @ extraction_attempts es"
  "extraction_attempts [] = []"
  by (simp_all add: extraction_attempts_def)

lemma copy_commands_simps [simp]:
  "copy_commands (xs @ ys) = copy_commands xs @ copy_commands ys"
  "copy_commands (e # es) = copies_of e @ copy_commands es"
  "copy_commands [] = []"
  by (simp_all add: copy_commands_def)

lemma written_files_simps [simp]:
  "written_files (xs @ ys) = written_files xs @ written_files ys"
  "written_files (e # es) = written_of e @ written_files es"
  "written_files [] = []"
  by (simp_all add: written_files_def)

lemma errors_logged_simps [simp]:
  "errors_logged (xs @ ys) = errors_logged xs @ errors_logged ys"
  "errors_logged (e # es) = error_of e @ errors_logged es"
  "errors_logged [] = []"
  by (simp_all add: errors_logged_def)

lemma dirs_made_simps [simp]:
  "dirs_made (xs @ ys) = dirs_made xs @ dirs_made ys"
  "dirs_made (e # es) = made_of e @ dirs_made es"
  "dirs_made [] = []"
  by (simp_all add: dirs_made_def)

lemma observers_of_Extracted [simp]:
  "extraction_attempts (map (\<lambda>m. Extracted m (f m)) ms) = []"
  "copy_commands (map (\<lambda>m. Extracted m (f m)) ms) = []"
  "errors_logged (map (\<lambda>m. Extracted m (f m)) ms) = []"
  "written_files (map (\<lambda>m. Extracted m (f m)) ms) = map f ms"
  by (induction ms) simp_all

subsection \<open>Classification\<close>

lemma classify_Parquet: "classify p = Parquet \<longleftrightarrow> is_tabular p"
  by (auto simp: classify_def is_tabular_def PARQUET_SUFFIXES_def Let_def list_ex_iff)

lemma classify_Archive: "classify p = Archive \<longleftrightarrow> is_archive p"
  by (auto simp: classify_def is_archive_def PARQUET_SUFFIXES_def Let_def list_ex_iff)

lemma classify_loop_filter:
  "classify_loop fs pq tf = (pq @ filter is_tabular fs, tf @ filter is_archive fs)"
proof (induction fs arbitrary: pq tf)
  case Nil
  show ?case by simp
next
  case (Cons f fs)
  show ?case
  proof (cases "classify f")
    case Skipped
    then have "\<not> is_tabular f" "\<not> is_archive f"
      using classify_Parquet [of f] classify_Archive [of f] by simp_all
    with Skipped Cons.IH show ?thesis by simp
  next
    case Parquet
    then have "is_tabular f" "\<not> is_archive f"
      using classify_Parquet [of f] classify_Archive [of f] by simp_all
    with Parquet Cons.IH show ?thesis by simp
  next
    case Archive
    then have "\<not> is_tabular f" "is_archive f"
      using classify_Parquet [of f] classify_Archive [of f] by simp_all
    with Archive Cons.IH show ?thesis by simp
  qed
qed

text \<open>
  C8, as the code has it. \<^verbatim>\<open>classify_files\<close> keeps the order of the listing and returns
  exactly the tabular paths and exactly the archive paths: a path is tabular passthrough when
  \<^verbatim>\<open>.parquet\<close> occurs anywhere among the suffixes of its file name, it is an archive when it
  is not tabular and its last two suffixes joined, or its last suffix alone, is one of
  \<^verbatim>\<open>.tar\<close>, \<^verbatim>\<open>.tar.gz\<close>, \<^verbatim>\<open>.tgz\<close>, \<^verbatim>\<open>.tar.bz2\<close>, \<^verbatim>\<open>.tar.xz\<close>, and no path is in both lists.
\<close>

theorem classify_files_partition:
  "classify_files repo_files = (filter is_tabular repo_files, filter is_archive repo_files)
   \<and> set (filter is_tabular repo_files) \<inter> set (filter is_archive repo_files) = {}"
  by (auto simp: classify_files_def classify_loop_filter is_archive_def is_tabular_def)

text \<open>
  C8 as stated fails: \<^verbatim>\<open>x.parquet.tar\<close> ends in \<^verbatim>\<open>.tar\<close> and is listed as tabular, because the
  test for \<^verbatim>\<open>.parquet\<close> looks at every suffix and comes first; \<^verbatim>\<open>d/.tar\<close> ends in \<^verbatim>\<open>.tar\<close>
  and is in neither list, because a name of leading dots and one word has no suffix.
\<close>

theorem classify_files_counterexample:
  "classify_files [''x.parquet.tar'', ''d/.tar''] = ([''x.parquet.tar''], [])"
  by code_simp

subsection \<open>The steps of a job and what they leave in the history\<close>

lemma history_extract_member [simp]:
  "history (extract_member env path name w) =
     history w @ [Extracted name (fs_key env (os_path_join path name))]"
  by (simp add: extract_member_def Let_def)

lemma extractall_safe_members_history:
  "history (snd (extractall_safe_members env temp_dir ms w)) =
     history w @ map (\<lambda>m. Extracted m (fs_key env (os_path_join temp_dir m)))
                  (takeWhile (member_ok env temp_dir) ms)"
  by (induction ms arbitrary: w) (simp_all add: member_ok_def Let_def)




lemma system_tar_copies:
  "copy_commands (history (snd (extract_with_system_tar env tar_path dest_dir w))) =
     copy_commands (history w)"
  by (simp add: extract_with_system_tar_def copy_of_def Let_def split: proc.splits)

lemma system_tar_errors:
  "errors_logged (history (snd (extract_with_system_tar env tar_path dest_dir w))) =
     errors_logged (history w)"
  by (simp add: extract_with_system_tar_def Let_def split: proc.splits)



lemma fallback_copies:
  "copy_commands (history (snd (tarfile_fallback env tar_path temp_dir w))) =
     copy_commands (history w)"
  by (simp add: tarfile_fallback_def tarfile_open_def Let_def extractall_safe_members_history
      split: option.splits node.splits prod.splits sum.splits)

lemma fallback_errors:
  "errors_logged (history (snd (tarfile_fallback env tar_path temp_dir w))) =
     errors_logged (history w)"
  by (simp add: tarfile_fallback_def tarfile_open_def Let_def extractall_safe_members_history
      split: option.splits node.splits prod.splits sum.splits)


lemma extract_step_copies:
  "copy_commands (history (snd (extract_step env unique_id tar_path temp_dir w))) =
     copy_commands (history w)"
proof (cases "extract_with_system_tar env tar_path temp_dir w")
  case (Pair ok w1)
  have a: "copy_commands (history w1) = copy_commands (history w)"
    using system_tar_copies [of env tar_path temp_dir w] Pair by simp
  have b: "copy_commands (history (snd (tarfile_fallback env tar_path temp_dir w1))) =
             copy_commands (history w1)"
    by (rule fallback_copies)
  from Pair a b show ?thesis
    by (auto simp: extract_step_def split: prod.splits sum.splits bool.splits)
qed

lemma extract_step_no_error:
  assumes "fst (extract_step env unique_id tar_path temp_dir w) = True"
  shows "errors_logged (history (snd (extract_step env unique_id tar_path temp_dir w))) =
           errors_logged (history w)"
proof (cases "extract_with_system_tar env tar_path temp_dir w")
  case (Pair ok w1)
  have a: "errors_logged (history w1) = errors_logged (history w)"
    using system_tar_errors [of env tar_path temp_dir w] Pair by simp
  have b: "errors_logged (history (snd (tarfile_fallback env tar_path temp_dir w1))) =
             errors_logged (history w1)"
    by (rule fallback_errors)
  from assms Pair a b show ?thesis
    by (auto simp: extract_step_def split: prod.splits sum.splits bool.splits)
qed








lemma upload_step_exited:
  assumes "subprocess_run env [''gcloud'', ''storage'', ''cp'', ''-r'', ''.'', gcs_dest]
             (Some temp_dir) (on_disk w) = Exited returncode out err d"
  shows "upload_step env unique_id tar_path temp_dir gcs_dest w =
           (Inr True,
            \<lparr>on_disk = d,
             history = history w @
               [Printed (py_repr_list [''gcloud'', ''storage'', ''cp'', ''-r'', ''.'', gcs_dest]),
                Ran [''gcloud'', ''storage'', ''cp'', ''-r'', ''.'', gcs_dest] (Some temp_dir),
                Logged INFO (''['' @ unique_id @ ''] Successfully processed '' @ basename tar_path)]\<rparr>)"
  using assms by (simp add: upload_step_def emit_def Let_def)

lemma upload_step_copies:
  "copy_commands (history (snd (upload_step env unique_id tar_path temp_dir gcs_dest w))) =
     copy_commands (history w) @
       [\<lparr>source_operand = ''.'', destination_uri = gcs_dest, working_dir = Some temp_dir\<rparr>]"
  by (simp add: upload_step_def copy_of_def Let_def split: proc.splits)


lemma os_makedirs_observers:
  "extraction_attempts (history (snd (os_makedirs env p w))) = extraction_attempts (history w)"
  "copy_commands (history (snd (os_makedirs env p w))) = copy_commands (history w)"
  by (simp_all add: os_makedirs_def split: option.splits)

lemma os_makedirs_errors:
  "errors_logged (history (snd (os_makedirs env p w))) = errors_logged (history w)"
  by (simp add: os_makedirs_def split: option.splits)


lemma except_clause_observers:
  "extraction_attempts (history (snd (except_clause tar_path r))) = extraction_attempts (history (snd r))"
  "copy_commands (history (snd (except_clause tar_path r))) = copy_commands (history (snd r))"
  "set (history (snd r)) \<subseteq> set (history (snd (except_clause tar_path r)))"
  by (auto simp: except_clause_def split: prod.splits sum.splits)


lemma finally_clause_observers:
  "extraction_attempts (history (snd (finally_clause env temp_dir r))) = extraction_attempts (history (snd r))"
  "copy_commands (history (snd (finally_clause env temp_dir r))) = copy_commands (history (snd r))"
  "set (history (snd r)) \<subseteq> set (history (snd (finally_clause env temp_dir r)))"
  by (auto simp: finally_clause_def shutil_rmtree_def split: prod.splits sum.splits option.splits)


lemma finally_clause_result:
  assumes "\<And>d. rmtree_error env temp_dir d = None"
  shows "fst (finally_clause env temp_dir r) = Inr (fst r)"
  using assms
  by (auto simp: finally_clause_def shutil_rmtree_def split: prod.splits sum.splits option.splits)

lemma process_tar_file_after_setup:
  assumes "relpath (getcwd env) tar_path (SOURCE_ROOT env) = Inr rel_path"
      and "fst (os_makedirs env (workspace env uuid) w) = Inr ()"
  shows "process_tar_file env uuid tar_path w =
           finally_clause env (workspace env uuid)
             (except_clause tar_path
                (case extract_step env (take 8 uuid) tar_path (workspace env uuid)
                        (snd (os_makedirs env (workspace env uuid) w)) of
                   (False, w2) \<Rightarrow> (Inr False, w2)
                 | (True, w2) \<Rightarrow>
                     upload_step env (take 8 uuid) tar_path (workspace env uuid) (gcs_dest_of rel_path) w2))"
  using assms
  by (cases "os_makedirs env (workspace env uuid) w")
     (simp add: process_tar_file_def try_body_def workspace_def gcs_dest_of_def Let_def
        split: prod.splits bool.splits)

subsection \<open>The workspace of a job\<close>

text \<open>When removing the workspace does not fail, the job returns a boolean.\<close>

lemma process_tar_file_returns:
  assumes "\<And>d. rmtree_error env (workspace env uuid) d = None"
  shows "\<exists>b. fst (process_tar_file env uuid tar_path w) = Inr b"
  using assms
  by (auto simp: process_tar_file_def finally_clause_def workspace_def shutil_rmtree_def Let_def
      split: prod.splits if_splits sum.splits option.splits)



subsection \<open>The fallback\<close>



subsection \<open>The exit status of the copy command\<close>

text \<open>\<^verbatim>\<open>run_gcloud_storage_upload\<close> of main.py raises on a non-zero exit status.\<close>

lemma run_gcloud_nonzero:
  assumes "dest \<noteq> []"
      and "subprocess_run env [''gcloud'', ''storage'', ''cp'', ''-r'', local_dir, dest] None (on_disk w)
             = Exited returncode out err d"
      and "returncode \<noteq> 0"
  shows "fst (run_gcloud_storage_upload env local_dir (Some dest) w) =
           Inl (CalledProcessError returncode [''gcloud'', ''storage'', ''cp'', ''-r'', local_dir, dest])"
  using assms by (simp add: run_gcloud_storage_upload_def Let_def)

text \<open>
  C3, as the code has it. In \<^verbatim>\<open>process_tar_file\<close> the exit status of the copy command is not
  looked at: when extraction succeeded and the command ran and exited, with any status and any
  output, the job returns \<^verbatim>\<open>True\<close> and logs no error (provided removing the workspace does not
  fail). In main.py a non-zero exit status of the copy command becomes a
  \<^verbatim>\<open>CalledProcessError\<close> that carries the status and the command.
\<close>

theorem copy_exit_status_ignored:
  "(relpath (getcwd env) tar_path (SOURCE_ROOT env) = Inr rel_path
      \<and> fst (os_makedirs env (workspace env uuid) w) = Inr ()
      \<and> fst (extract_step env (take 8 uuid) tar_path (workspace env uuid)
               (snd (os_makedirs env (workspace env uuid) w))) = True
      \<and> subprocess_run env [''gcloud'', ''storage'', ''cp'', ''-r'', ''.'', gcs_dest_of rel_path]
           (Some (workspace env uuid))
           (on_disk (snd (extract_step env (take 8 uuid) tar_path (workspace env uuid)
               (snd (os_makedirs env (workspace env uuid) w))))) = Exited returncode out err d
      \<and> (\<forall>d. rmtree_error env (workspace env uuid) d = None)
    \<longrightarrow> fst (process_tar_file env uuid tar_path w) = Inr True
        \<and> errors_logged (history (snd (process_tar_file env uuid tar_path w))) = errors_logged (history w))
   \<and> (dest \<noteq> []
      \<and> subprocess_run env [''gcloud'', ''storage'', ''cp'', ''-r'', local_dir, dest] None (on_disk w')
           = Exited returncode' out' err' d'
      \<and> returncode' \<noteq> 0
    \<longrightarrow> fst (run_gcloud_storage_upload env local_dir (Some dest) w') =
          Inl (CalledProcessError returncode' [''gcloud'', ''storage'', ''cp'', ''-r'', local_dir, dest]))"
proof (intro conjI impI)
  let ?td = "workspace env uuid"
  let ?ex = "extract_step env (take 8 uuid) tar_path ?td (snd (os_makedirs env ?td w))"
  let ?up = "upload_step env (take 8 uuid) tar_path ?td (gcs_dest_of rel_path) (snd ?ex)"
  assume h: "relpath (getcwd env) tar_path (SOURCE_ROOT env) = Inr rel_path
      \<and> fst (os_makedirs env ?td w) = Inr () \<and> fst ?ex = True
      \<and> subprocess_run env [''gcloud'', ''storage'', ''cp'', ''-r'', ''.'', gcs_dest_of rel_path]
           (Some ?td) (on_disk (snd ?ex)) = Exited returncode out err d
      \<and> (\<forall>d. rmtree_error env ?td d = None)"
  then have rel: "relpath (getcwd env) tar_path (SOURCE_ROOT env) = Inr rel_path"
    and mk: "fst (os_makedirs env ?td w) = Inr ()"
    and ext: "fst ?ex = True"
    and run: "subprocess_run env [''gcloud'', ''storage'', ''cp'', ''-r'', ''.'', gcs_dest_of rel_path]
           (Some ?td) (on_disk (snd ?ex)) = Exited returncode out err d"
    and rm: "\<And>d. rmtree_error env ?td d = None"
    by simp_all
  have job: "process_tar_file env uuid tar_path w = finally_clause env ?td (except_clause tar_path ?up)"
    using process_tar_file_after_setup [OF rel mk] ext by (cases ?ex) simp
  have up: "fst ?up = Inr True" "errors_logged (history (snd ?up)) = errors_logged (history (snd ?ex))"
    using upload_step_exited [OF run] by simp_all
  have e2: "errors_logged (history (snd ?ex)) = errors_logged (history w)"
    using extract_step_no_error [OF ext] by (simp add: os_makedirs_errors)
  have ex: "except_clause tar_path ?up = (True, snd ?up)"
    using up(1) by (cases ?up) (simp add: except_clause_def)
  show "fst (process_tar_file env uuid tar_path w) = Inr True"
    using job ex finally_clause_result [OF rm, of "(True, snd ?up)"] by simp
  show "errors_logged (history (snd (process_tar_file env uuid tar_path w))) = errors_logged (history w)"
    using job ex up(2) e2
    by (auto simp: finally_clause_def shutil_rmtree_def split: option.splits)
next
  assume "dest \<noteq> []
      \<and> subprocess_run env [''gcloud'', ''storage'', ''cp'', ''-r'', local_dir, dest] None (on_disk w')
           = Exited returncode' out' err' d'
      \<and> returncode' \<noteq> 0"
  then show "fst (run_gcloud_storage_upload env local_dir (Some dest) w') =
          Inl (CalledProcessError returncode' [''gcloud'', ''storage'', ''cp'', ''-r'', local_dir, dest])"
    using run_gcloud_nonzero [of dest env local_dir w' returncode' out' err' d'] by blast
qed

text \<open>
  C3 on a host whose copy command exits with status 1: the job of gcs_uploader.py succeeds
  without a logged error, the upload of main.py raises.
\<close>

theorem copy_exit_status_ignored_witness:
  "relpath (getcwd failing_copy_env) shard (SOURCE_ROOT failing_copy_env) = Inr ''data/shard-000/part.tar''
   \<and> fst (os_makedirs failing_copy_env (workspace failing_copy_env ''1a2b3c4d-5e6f'')
            (shard_world [''a.txt''])) = Inr ()
   \<and> fst (extract_step failing_copy_env (take 8 ''1a2b3c4d-5e6f'') shard
            (workspace failing_copy_env ''1a2b3c4d-5e6f'')
            (snd (os_makedirs failing_copy_env (workspace failing_copy_env ''1a2b3c4d-5e6f'')
                    (shard_world [''a.txt''])))) = True
   \<and> subprocess_run failing_copy_env
        [''gcloud'', ''storage'', ''cp'', ''-r'', ''.'', gcs_dest_of ''data/shard-000/part.tar'']
        (Some (workspace failing_copy_env ''1a2b3c4d-5e6f''))
        (on_disk (snd (extract_step failing_copy_env (take 8 ''1a2b3c4d-5e6f'') shard
            (workspace failing_copy_env ''1a2b3c4d-5e6f'')
            (snd (os_makedirs failing_copy_env (workspace failing_copy_env ''1a2b3c4d-5e6f'')
                    (shard_world [''a.txt'']))))))
        = Exited 1 [] ''ERROR: (gcloud.storage.cp) bucket not found''
            [(shard, TarFile [''a.txt'']), (''/w/temp_extraction_work/1a2b3c4d'', Dir)]
   \<and> (\<forall>d. rmtree_error failing_copy_env (workspace failing_copy_env ''1a2b3c4d-5e6f'') d = None)
   \<and> fst (process_tar_file failing_copy_env ''1a2b3c4d-5e6f'' shard (shard_world [''a.txt''])) = Inr True
   \<and> errors_logged (history (snd (process_tar_file failing_copy_env ''1a2b3c4d-5e6f'' shard
         (shard_world [''a.txt''])))) = errors_logged (history (shard_world [''a.txt'']))
   \<and> subprocess_run failing_copy_env
        [''gcloud'', ''storage'', ''cp'', ''-r'', ''/home/u/Dataset/Svarah'', ''gs://bucket/path'']
        None (on_disk (shard_world [])) =
        Exited 1 [] ''ERROR: (gcloud.storage.cp) bucket not found'' (on_disk (shard_world []))
   \<and> fst (run_gcloud_storage_upload failing_copy_env ''/home/u/Dataset/Svarah''
            (Some ''gs://bucket/path'') (shard_world [])) =
       Inl (CalledProcessError 1
              [''gcloud'', ''storage'', ''cp'', ''-r'', ''/home/u/Dataset/Svarah'', ''gs://bucket/path''])"
proof -
  have a: "relpath (getcwd failing_copy_env) shard (SOURCE_ROOT failing_copy_env)
             = Inr ''data/shard-000/part.tar''"
    by code_simp
  have b: "fst (os_makedirs failing_copy_env (workspace failing_copy_env ''1a2b3c4d-5e6f'')
            (shard_world [''a.txt''])) = Inr ()"
    by code_simp
  have c: "fst (extract_step failing_copy_env (take 8 ''1a2b3c4d-5e6f'') shard
            (workspace failing_copy_env ''1a2b3c4d-5e6f'')
            (snd (os_makedirs failing_copy_env (workspace failing_copy_env ''1a2b3c4d-5e6f'')
                    (shard_world [''a.txt''])))) = True"
    by code_simp
  have r: "subprocess_run failing_copy_env
        [''gcloud'', ''storage'', ''cp'', ''-r'', ''.'', gcs_dest_of ''data/shard-000/part.tar'']
        (Some (workspace failing_copy_env ''1a2b3c4d-5e6f''))
        (on_disk (snd (extract_step failing_copy_env (take 8 ''1a2b3c4d-5e6f'') shard
            (workspace failing_copy_env ''1a2b3c4d-5e6f'')
            (snd (os_makedirs failing_copy_env (workspace failing_copy_env ''1a2b3c4d-5e6f'')
                    (shard_world [''a.txt'']))))))
        = Exited 1 [] ''ERROR: (gcloud.storage.cp) bucket not found''
            [(shard, TarFile [''a.txt'']), (''/w/temp_extraction_work/1a2b3c4d'', Dir)]"
    by code_simp
  have m: "\<forall>d. rmtree_error failing_copy_env (workspace failing_copy_env ''1a2b3c4d-5e6f'') d = None"
    by (simp add: failing_copy_env_def quiet_env_def)
  have n: "''gs://bucket/path'' \<noteq> []"
    by simp
  have r': "subprocess_run failing_copy_env
        [''gcloud'', ''storage'', ''cp'', ''-r'', ''/home/u/Dataset/Svarah'', ''gs://bucket/path'']
        None (on_disk (shard_world [])) =
        Exited 1 [] ''ERROR: (gcloud.storage.cp) bucket not found'' (on_disk (shard_world []))"
    by (simp add: failing_copy_env_def quiet_env_def)
  have z: "(1::int) \<noteq> 0"
    by simp
  note t = copy_exit_status_ignored [of failing_copy_env shard "''data/shard-000/part.tar''"
      "''1a2b3c4d-5e6f''" "shard_world [''a.txt'']" 1 "[]" "''ERROR: (gcloud.storage.cp) bucket not found''"
      "[(shard, TarFile [''a.txt'']), (''/w/temp_extraction_work/1a2b3c4d'', Dir)]"
      "''gs://bucket/path''" "''/home/u/Dataset/Svarah''" "shard_world []" 1 "[]"
      "''ERROR: (gcloud.storage.cp) bucket not found''" "on_disk (shard_world [])"]
  from t a b c r m n r' z show ?thesis by blast
qed

text \<open>
  C3 as stated fails: the copy command exits with status 1 and a message on its error stream,
  and the job returns \<^verbatim>\<open>True\<close> with no error logged.
\<close>

theorem copy_exit_status_counterexample:
  "fst (process_tar_file failing_copy_env ''1a2b3c4d-5e6f'' shard (shard_world [''a.txt''])) = Inr True
   \<and> errors_logged (history (snd (process_tar_file failing_copy_env ''1a2b3c4d-5e6f'' shard
         (shard_world [''a.txt''])))) = []"
  by code_simp

subsection \<open>What the copy command is given\<close>

lemma run_gcloud_copies:
  assumes "dest \<noteq> []"
  shows "copy_commands (history (snd (run_gcloud_storage_upload env local_dir (Some dest) w))) =
           copy_commands (history w) @ [\<lparr>source_operand = local_dir, destination_uri = dest, working_dir = None\<rparr>]"
  using assms
  by (simp add: run_gcloud_storage_upload_def copy_of_def Let_def split: proc.splits)

text \<open>
  C7, as the code has it. A job of gcs_uploader.py whose extraction succeeded runs exactly one
  copy command: source \<^verbatim>\<open>.\<close>, run inside the workspace, destination
  \<^verbatim>\<open>gs://BUCKET/<directory of the archive's relative path>/\<close>; so the source names the
  contents of the workspace. \<^verbatim>\<open>run_gcloud_storage_upload\<close> of main.py, given a destination,
  runs one copy command whose source is the path of the local directory itself, from the
  directory of the script.
\<close>

theorem copy_source_operand:
  "(relpath (getcwd env) tar_path (SOURCE_ROOT env) = Inr rel_path
      \<and> fst (os_makedirs env (workspace env uuid) w) = Inr ()
      \<and> fst (extract_step env (take 8 uuid) tar_path (workspace env uuid)
               (snd (os_makedirs env (workspace env uuid) w))) = True
    \<longrightarrow> copy_commands (history (snd (process_tar_file env uuid tar_path w))) =
          copy_commands (history w)
            @ [\<lparr>source_operand = ''.'', destination_uri = gcs_dest_of rel_path,
                working_dir = Some (workspace env uuid)\<rparr>])
   \<and> (dest \<noteq> []
    \<longrightarrow> copy_commands (history (snd (run_gcloud_storage_upload env local_dir (Some dest) w'))) =
          copy_commands (history w')
            @ [\<lparr>source_operand = local_dir, destination_uri = dest, working_dir = None\<rparr>])"
proof (intro conjI impI)
  let ?td = "workspace env uuid"
  let ?ex = "extract_step env (take 8 uuid) tar_path ?td (snd (os_makedirs env ?td w))"
  assume h: "relpath (getcwd env) tar_path (SOURCE_ROOT env) = Inr rel_path
      \<and> fst (os_makedirs env ?td w) = Inr () \<and> fst ?ex = True"
  then have job: "process_tar_file env uuid tar_path w =
      finally_clause env ?td (except_clause tar_path
        (upload_step env (take 8 uuid) tar_path ?td (gcs_dest_of rel_path) (snd ?ex)))"
    using process_tar_file_after_setup [of env tar_path rel_path uuid w]
    by (cases ?ex) simp
  show "copy_commands (history (snd (process_tar_file env uuid tar_path w))) =
          copy_commands (history w)
            @ [\<lparr>source_operand = ''.'', destination_uri = gcs_dest_of rel_path, working_dir = Some ?td\<rparr>]"
    by (simp add: job finally_clause_observers except_clause_observers upload_step_copies
        extract_step_copies os_makedirs_observers)
next
  assume "dest \<noteq> []"
  then show "copy_commands (history (snd (run_gcloud_storage_upload env local_dir (Some dest) w'))) =
          copy_commands (history w') @ [\<lparr>source_operand = local_dir, destination_uri = dest, working_dir = None\<rparr>]"
    by (rule run_gcloud_copies)
qed

text \<open>
  C7 on an archive with one member (the job copies \<^verbatim>\<open>.\<close> from inside its workspace) and on
  the upload of main.py (the source is the directory).
\<close>

theorem copy_source_operand_witness:
  "relpath (getcwd quiet_env) shard (SOURCE_ROOT quiet_env) = Inr ''data/shard-000/part.tar''
   \<and> fst (os_makedirs quiet_env (workspace quiet_env ''1a2b3c4d-5e6f'') (shard_world [''a.txt''])) = Inr ()
   \<and> fst (extract_step quiet_env (take 8 ''1a2b3c4d-5e6f'') shard (workspace quiet_env ''1a2b3c4d-5e6f'')
        (snd (os_makedirs quiet_env (workspace quiet_env ''1a2b3c4d-5e6f'') (shard_world [''a.txt''])))) = True
   \<and> copy_commands (history (snd (process_tar_file quiet_env ''1a2b3c4d-5e6f'' shard (shard_world [''a.txt''])))) =
       [\<lparr>source_operand = ''.'', destination_uri = ''gs://vaani-tts-master/data/shard-000/'',
         working_dir = Some ''/w/temp_extraction_work/1a2b3c4d''\<rparr>]
   \<and> copy_commands (history (snd (run_gcloud_storage_upload quiet_env ''/home/u/Dataset/Svarah''
        (Some ''gs://bucket/path'') (shard_world [])))) =
       [\<lparr>source_operand = ''/home/u/Dataset/Svarah'', destination_uri = ''gs://bucket/path'', working_dir = None\<rparr>]"
proof -
  have a: "relpath (getcwd quiet_env) shard (SOURCE_ROOT quiet_env) = Inr ''data/shard-000/part.tar''"
    by code_simp
  have b: "fst (os_makedirs quiet_env (workspace quiet_env ''1a2b3c4d-5e6f'') (shard_world [''a.txt''])) = Inr ()"
    by code_simp
  have c: "fst (extract_step quiet_env (take 8 ''1a2b3c4d-5e6f'') shard (workspace quiet_env ''1a2b3c4d-5e6f'')
        (snd (os_makedirs quiet_env (workspace quiet_env ''1a2b3c4d-5e6f'') (shard_world [''a.txt''])))) = True"
    by code_simp
  have d: "''gs://bucket/path'' \<noteq> []"
    by simp
  have g: "gcs_dest_of ''data/shard-000/part.tar'' = ''gs://vaani-tts-master/data/shard-000/''"
    by code_simp
  have k: "workspace quiet_env ''1a2b3c4d-5e6f'' = ''/w/temp_extraction_work/1a2b3c4d''"
    by code_simp
  have h0: "history (shard_world xs) = []" for xs
    by (simp add: shard_world_def)
  note t = copy_source_operand [of quiet_env shard "''data/shard-000/part.tar''" "''1a2b3c4d-5e6f''"
      "shard_world [''a.txt'']" "''gs://bucket/path''" "''/home/u/Dataset/Svarah''" "shard_world []"]
  from t a b c d have
    "copy_commands (history (snd (process_tar_file quiet_env ''1a2b3c4d-5e6f'' shard (shard_world [''a.txt'']))))
       = copy_commands (history (shard_world [''a.txt'']))
          @ [\<lparr>source_operand = ''.'', destination_uri = gcs_dest_of ''data/shard-000/part.tar'',
               working_dir = Some (workspace quiet_env ''1a2b3c4d-5e6f'')\<rparr>]"
    and "copy_commands (history (snd (run_gcloud_storage_upload quiet_env ''/home/u/Dataset/Svarah''
        (Some ''gs://bucket/path'') (shard_world [])))) =
          copy_commands (history (shard_world []))
            @ [\<lparr>source_operand = ''/home/u/Dataset/Svarah'', destination_uri = ''gs://bucket/path'', working_dir = None\<rparr>]"
    by blast+
  then have
    "copy_commands (history (snd (process_tar_file quiet_env ''1a2b3c4d-5e6f'' shard (shard_world [''a.txt'']))))
       = [\<lparr>source_operand = ''.'', destination_uri = ''gs://vaani-tts-master/data/shard-000/'',
               working_dir = Some ''/w/temp_extraction_work/1a2b3c4d''\<rparr>]"
    and "copy_commands (history (snd (run_gcloud_storage_upload quiet_env ''/home/u/Dataset/Svarah''
        (Some ''gs://bucket/path'') (shard_world [])))) =
          [\<lparr>source_operand = ''/home/u/Dataset/Svarah'', destination_uri = ''gs://bucket/path'', working_dir = None\<rparr>]"
    by (simp_all only: g k h0 copy_commands_simps append_Nil)
  with a b c show ?thesis by blast
qed

text \<open>
  C7 as stated fails for main.py: the source of the copy command is the local directory
  itself, not its contents.
\<close>

theorem copy_source_operand_counterexample:
  "copy_commands (history (snd (run_gcloud_storage_upload quiet_env ''/home/u/Dataset/Svarah''
       (Some ''gs://bucket/path'') (shard_world [])))) =
     [\<lparr>source_operand = ''/home/u/Dataset/Svarah'', destination_uri = ''gs://bucket/path'',
       working_dir = None\<rparr>]
   \<and> \<not> list_ex (\<lambda>c. source_operand c = ''.'')
         (copy_commands (history (snd (run_gcloud_storage_upload quiet_env ''/home/u/Dataset/Svarah''
            (Some ''gs://bucket/path'') (shard_world [])))))"
  by code_simp

subsection \<open>No archive found\<close>




subsection \<open>A missing archive\<close>

text \<open>
  C10. When the archive does not exist, \<^verbatim>\<open>extract_tar_archive\<close> of main.py returns normally:
  the disk is as before, the only effect is the printed warning, and the caller gets the
  value a successful extraction returns.
\<close>

theorem missing_archive_returns:
  assumes "\<not> os_path_exists env (on_disk w) archive_path"
  shows "extract_tar_archive env archive_path keep_archive extraction_path w =
           (Inr (), w\<lparr>history := history w
              @ [Printed (''Warning: expected archive not found locally: '' @ archive_path)]\<rparr>)"
  using assms by (simp add: extract_tar_archive_def emit_def)

text \<open>
  C10 on a path that is not on disk, next to a successful extraction of an archive that is:
  both calls return the same value.
\<close>

theorem missing_archive_returns_witness:
  "\<not> os_path_exists quiet_env (on_disk (shard_world [''a.txt''])) ''/data/missing.tar''
   \<and> extract_tar_archive quiet_env ''/data/missing.tar'' False ''/out'' (shard_world [''a.txt'']) =
       (Inr (), (shard_world [''a.txt''])\<lparr>history := history (shard_world [''a.txt''])
          @ [Printed (''Warning: expected archive not found locally: '' @ ''/data/missing.tar'')]\<rparr>)
   \<and> fst (extract_tar_archive quiet_env shard False ''/out'' (shard_world [''a.txt''])) = Inr ()"
proof -
  have h: "\<not> os_path_exists quiet_env (on_disk (shard_world [''a.txt''])) ''/data/missing.tar''"
    by code_simp
  have ok: "fst (extract_tar_archive quiet_env shard False ''/out'' (shard_world [''a.txt''])) = Inr ()"
    by code_simp
  from h missing_archive_returns [OF h] ok show ?thesis by blast
qed

subsection \<open>Members that leave the destination\<close>

text \<open>
  main.py checks every member before it extracts any, component by component: an archive
  with a member that resolves outside the destination is refused with nothing written.
\<close>

lemma check_members_result:
  "check_members env destination ms =
     (case filter (\<lambda>m. \<not> lands_within env destination m) ms of
        [] \<Rightarrow> Inr ()
      | m # _ \<Rightarrow> Inl (RuntimeError (''Archive member would extract outside of '' @ destination @ '': ''
                  @ os_path_join destination m)))"
  by (induction ms) (simp_all add: ensure_path_is_within_def lands_within_def)

lemma extract_tar_archive_rejects:
  assumes "map_of (on_disk w) (fs_key env archive_path) = Some (TarFile members)"
      and "os_path_exists env (on_disk w) archive_path"
      and "\<not> list_all (lands_within env extraction_path) members"
  shows "\<exists>msg. fst (extract_tar_archive env archive_path keep_archive extraction_path w) = Inl (RuntimeError msg)"
    and "on_disk (snd (extract_tar_archive env archive_path keep_archive extraction_path w)) = on_disk w"
    and "written_files (history (snd (extract_tar_archive env archive_path keep_archive extraction_path w)))
           = written_files (history w)"
proof -
  from assms(3) obtain m ms where f: "filter (\<lambda>m. \<not> lands_within env extraction_path m) members = m # ms"
    by (cases "filter (\<lambda>m. \<not> lands_within env extraction_path m) members")
       (auto simp: list_all_iff filter_empty_conv)
  then have c: "check_members env extraction_path members =
      Inl (RuntimeError (''Archive member would extract outside of '' @ extraction_path @ '': ''
                  @ os_path_join extraction_path m))"
    by (simp add: check_members_result)
  from assms(1,2) c
  show "\<exists>msg. fst (extract_tar_archive env archive_path keep_archive extraction_path w) = Inl (RuntimeError msg)"
    by (simp add: extract_tar_archive_def tarfile_open_def Let_def)
  from assms(1,2) c
  show "on_disk (snd (extract_tar_archive env archive_path keep_archive extraction_path w)) = on_disk w"
    by (simp add: extract_tar_archive_def tarfile_open_def Let_def)
  from assms(1,2) c
  show "written_files (history (snd (extract_tar_archive env archive_path keep_archive extraction_path w)))
           = written_files (history w)"
    by (simp add: extract_tar_archive_def tarfile_open_def Let_def)
qed

text \<open>
  C1 on gcs_uploader.py, without a system tar. First archive: \<^verbatim>\<open>a.txt\<close>, then
  \<^verbatim>\<open>../../etc/passwd\<close>; the job fails with the traversal exception, but \<^verbatim>\<open>a.txt\<close> was
  written before the second member was checked. Second archive: \<^verbatim>\<open>../1a2b3c4dx/evil\<close>, which
  lands in a sibling of the workspace \<^verbatim>\<open>1a2b3c4d\<close>; the test on the common prefix of the two
  strings accepts it, the job succeeds and the file stays on disk outside the workspace,
  while the check of main.py refuses the same member for the same destination.
\<close>

theorem fallback_writes_before_and_beside:
  "fst (process_tar_file no_tar_env ''1a2b3c4d-5e6f'' shard
          (shard_world [''a.txt'', ''../../etc/passwd''])) = Inr False
   \<and> written_files (history (snd (process_tar_file no_tar_env ''1a2b3c4d-5e6f'' shard
          (shard_world [''a.txt'', ''../../etc/passwd''])))) = [''/w/temp_extraction_work/1a2b3c4d/a.txt'']
   \<and> workspace no_tar_env ''1a2b3c4d-5e6f'' = ''/w/temp_extraction_work/1a2b3c4d''
   \<and> fst (process_tar_file no_tar_env ''1a2b3c4d-5e6f'' shard
          (shard_world [''../1a2b3c4dx/evil''])) = Inr True
   \<and> on_disk (snd (process_tar_file no_tar_env ''1a2b3c4d-5e6f'' shard
          (shard_world [''../1a2b3c4dx/evil'']))) =
        [(shard, TarFile [''../1a2b3c4dx/evil'']), (''/w/temp_extraction_work/1a2b3c4dx/evil'', File)]
   \<and> fst (extract_tar_archive quiet_env shard True ''/w/temp_extraction_work/1a2b3c4d''
          (shard_world [''../1a2b3c4dx/evil''])) =
        Inl (RuntimeError (''Archive member would extract outside of /w/temp_extraction_work/1a2b3c4d: ''
               @ ''/w/temp_extraction_work/1a2b3c4d/../1a2b3c4dx/evil''))"
  by code_simp

subsection \<open>An exception in the cleanup\<close>

text \<open>
  C5 where the workspace cannot be removed: the exception of \<^verbatim>\<open>shutil.rmtree\<close> in the
  \<^verbatim>\<open>finally\<close> clause leaves \<^verbatim>\<open>process_tar_file\<close>, and \<^verbatim>\<open>main\<close> ends with it when it reads the
  job's result.
\<close>

theorem cleanup_failure_escapes:
  "fst (process_tar_file locked_tree_env ''1a2b3c4d-5e6f'' shard (shard_world [''a.txt'']))
     = Inl (OSError ''[Errno 13] Permission denied'')
   \<and> fst (main locked_tree_env (shard_world [''a.txt'']))
     = Crashed (OSError ''[Errno 13] Permission denied'')"
  by code_simp

end
